theory Spec2Isabelle
  imports Complex_Main "HOL-Library.Word"
begin

section \<open>Python values used by \<^verbatim>\<open>recorder.py\<close>\<close>

text \<open>
  Python \<^verbatim>\<open>str\<close> values are modelled as \<^typ>\<open>string\<close>; a \<^typ>\<open>char\<close> stands for the code
  point of the same number, so the model covers the code points 0 to 255. Python
  \<^verbatim>\<open>bytes\<close> values are lists of 8-bit words. Python integers are \<^typ>\<open>int\<close>; an argument
  that may be \<^verbatim>\<open>None\<close> is an \<^typ>\<open>int option\<close>. Exceptions are values of \<open>py_error\<close>, and a
  function that can raise returns \<open>py_error + 'a\<close>.
\<close>

type_synonym bytes = "8 word list"

datatype py_error =
    IndexError
  | ZeroDivisionError
  | AssertionError
  | Exception string

text \<open>
  \<^verbatim>\<open>str.strip()\<close> and the regular expression class \<^verbatim>\<open>\s\<close> use the same set of white space
  characters; below code point 256 these are 9 to 13, 28 to 32, 133 and 160.
\<close>

definition is_space :: "char \<Rightarrow> bool" where
  "is_space c =
     (let n = (of_char c :: nat)
      in (9 \<le> n \<and> n \<le> 13) \<or> (28 \<le> n \<and> n \<le> 32) \<or> n = 133 \<or> n = 160)"

text \<open>\<^verbatim>\<open>\d\<close>: the decimal digits; below code point 256 these are \<^verbatim>\<open>0\<close> to \<^verbatim>\<open>9\<close>.\<close>

definition is_digit :: "char \<Rightarrow> bool" where
  "is_digit c = (let n = (of_char c :: nat) in 48 \<le> n \<and> n \<le> 57)"

text \<open>
  \<^verbatim>\<open>\w\<close>: the alphanumeric characters and the underscore. Below code point 256 the
  alphanumerics are the ASCII letters and digits, 170, 178, 179, 181, 185, 186, 188 to 190,
  and 192 to 255 without 215 and 247.
\<close>

definition is_word :: "char \<Rightarrow> bool" where
  "is_word c =
     (let n = (of_char c :: nat)
      in (48 \<le> n \<and> n \<le> 57) \<or> (65 \<le> n \<and> n \<le> 90) \<or> n = 95 \<or> (97 \<le> n \<and> n \<le> 122)
         \<or> n = 170 \<or> n = 178 \<or> n = 179 \<or> n = 181 \<or> n = 185 \<or> n = 186
         \<or> (188 \<le> n \<and> n \<le> 190) \<or> (192 \<le> n \<and> n \<noteq> 215 \<and> n \<noteq> 247))"

text \<open>\<^verbatim>\<open>s.strip()\<close>: white space removed from both ends.\<close>

definition strip :: "string \<Rightarrow> string" where
  "strip s = rev (dropWhile is_space (rev (dropWhile is_space s)))"

text \<open>\<^verbatim>\<open>line.startswith(p)\<close>.\<close>

definition startswith :: "string \<Rightarrow> string \<Rightarrow> bool" where
  "startswith s p = (take (length p) s = p)"

text \<open>
  \<^verbatim>\<open>xs[:n]\<close>: a negative bound counts from the end, and a bound outside the list is
  clamped.
\<close>

definition py_take :: "int \<Rightarrow> 'a list \<Rightarrow> 'a list" where
  "py_take n xs = (if 0 \<le> n then take (nat n) xs else take (length xs - nat (- n)) xs)"

text \<open>\<^verbatim>\<open>xs[i:j]\<close> for bounds that are not negative.\<close>

definition py_slice :: "nat \<Rightarrow> nat \<Rightarrow> 'a list \<Rightarrow> 'a list" where
  "py_slice i j xs = take (j - i) (drop i xs)"

text \<open>\<^verbatim>\<open>xs[i:None]\<close>, which is \<^verbatim>\<open>xs[i:]\<close>.\<close>

definition py_slice_from :: "nat \<Rightarrow> 'a list \<Rightarrow> 'a list" where
  "py_slice_from i xs = drop i xs"

section \<open>The capture buffer: \<^verbatim>\<open>read_audio\<close> and \<^verbatim>\<open>flush\<close>\<close>

text \<open>
  \<^verbatim>\<open>self.audio.buffer_queue\<close> is a first-in first-out queue of blocks, modelled as the list
  of the queued blocks, oldest first. The functions take the queue and return it updated.
\<close>

text \<open>
  Modelled from the spec: the producer that pushes a chunk lives in \<^verbatim>\<open>audio.py\<close>, which is
  not among the sources. The spec says that chunks are dequeued in the exact order
  enqueued, so a push appends at the young end.
\<close>

definition push :: "bytes list \<Rightarrow> bytes \<Rightarrow> bytes list" where
  "push queue chunk = queue @ [chunk]"

text \<open>
  The loop of \<^verbatim>\<open>read_audio\<close>: while the queue is not empty, take the oldest block and
  append it to \<^verbatim>\<open>blocks\<close> if it is truthy (for \<^verbatim>\<open>bytes\<close>: not empty). The result is the
  emptied queue and the collected blocks.
\<close>

fun read_audio_loop :: "bytes list \<Rightarrow> bytes list \<Rightarrow> bytes list \<times> bytes list" where
  "read_audio_loop [] blocks = ([], blocks)"
| "read_audio_loop (block # queue) blocks =
     read_audio_loop queue (if block \<noteq> [] then blocks @ [block] else blocks)"

text \<open>
  \<^verbatim>\<open>if drop_last: blocks = blocks[:-drop_last]\<close>: \<^verbatim>\<open>None\<close> and \<^verbatim>\<open>0\<close> are falsy and leave the
  blocks as they are. The result is the joined bytes and the queue left behind.
\<close>

definition read_audio :: "bytes list \<Rightarrow> int option \<Rightarrow> bytes \<times> bytes list" where
  "read_audio queue drop_last =
     (let (queue', blocks) = read_audio_loop queue [];
          blocks = (case drop_last of
                      None \<Rightarrow> blocks
                    | Some d \<Rightarrow> if d \<noteq> 0 then py_take (- d) blocks else blocks)
      in (concat blocks, queue'))"

text \<open>\<^verbatim>\<open>flush\<close>: the size of the queue, which is emptied without being read.\<close>

fun flush_loop :: "bytes list \<Rightarrow> bytes list" where
  "flush_loop [] = []"
| "flush_loop (block # queue) = flush_loop queue"

definition flush :: "bytes list \<Rightarrow> nat \<times> bytes list" where
  "flush queue = (length queue, flush_loop queue)"

section \<open>Prompt selection: \<^verbatim>\<open>get_scripts_from_file\<close>\<close>

subsection \<open>The two clean-up patterns\<close>

text \<open>
  The patterns of the nested function \<^verbatim>\<open>filter\<close> are sequences of single characters or
  character classes, some repeated, with one capturing group, between \<^verbatim>\<open>^\<close> and \<^verbatim>\<open>$\<close>. A
  pattern is modelled as the list of its items; the anchors are implicit.
\<close>

datatype char_class =
    Lit char    \<comment> \<open>the character itself\<close>
  | Word        \<comment> \<open>\<^verbatim>\<open>\w\<close>\<close>
  | Digit       \<comment> \<open>\<^verbatim>\<open>\d\<close>\<close>
  | Dot         \<comment> \<open>\<^verbatim>\<open>.\<close>: any character but a newline\<close>

datatype item =
    One char_class         \<comment> \<open>\<^verbatim>\<open>c\<close>\<close>
  | Plus char_class        \<comment> \<open>\<^verbatim>\<open>c+\<close>, greedy\<close>
  | GroupStar char_class   \<comment> \<open>\<^verbatim>\<open>(c*)\<close>, greedy, the capturing group 1\<close>

fun in_class :: "char_class \<Rightarrow> char \<Rightarrow> bool" where
  "in_class (Lit a) c = (c = a)"
| "in_class Word c = is_word c"
| "in_class Digit c = is_digit c"
| "in_class Dot c = (c \<noteq> CHR 0x0A)"

text \<open>The first alternative that succeeds, in the order the matcher tries them.\<close>

fun first_some :: "'a option list \<Rightarrow> 'a option" where
  "first_some [] = None"
| "first_some (None # xs) = first_some xs"
| "first_some (Some x # xs) = Some x"

text \<open>
  \<open>re_match items s\<close> matches the items at the start of \<open>s\<close>, then \<^verbatim>\<open>$\<close>, which holds at the
  end of the string and before a newline that ends the string. A greedy repetition tries
  the longest run first and gives characters back one at a time. The result is the text
  of group 1 and what is left of the string after the match.
\<close>

fun re_match :: "item list \<Rightarrow> string \<Rightarrow> (string \<times> string) option" where
  "re_match [] s = (if s = [] \<or> s = [CHR 0x0A] then Some ([], s) else None)"
| "re_match (One c # items) s =
     (case s of
        [] \<Rightarrow> None
      | x # xs \<Rightarrow> if in_class c x then re_match items xs else None)"
| "re_match (Plus c # items) s =
     first_some (map (\<lambda>i. re_match items (drop i s))
       (rev [1 ..< Suc (length (takeWhile (in_class c) s))]))"
| "re_match (GroupStar c # items) s =
     first_some (map (\<lambda>i. map_option (\<lambda>(g, rest). (take i s, rest)) (re_match items (drop i s)))
       (rev [0 ..< Suc (length (takeWhile (in_class c) s))]))"

text \<open>
  \<^verbatim>\<open>re.sub(pat, r'\1', script, count=1)\<close> for a pattern that starts with \<^verbatim>\<open>^\<close>: the only
  possible match starts at position 0, and it is replaced by its group 1.
\<close>

definition re_sub_group1 :: "item list \<Rightarrow> string \<Rightarrow> string" where
  "re_sub_group1 pat script =
     (case re_match pat script of
        None \<Rightarrow> script
      | Some (g, rest) \<Rightarrow> g @ rest)"

text \<open>\<^verbatim>\<open>r'^\w+ "(.*)"$'\<close>\<close>

definition arctic :: "item list" where
  "arctic = [Plus Word, One (Lit CHR '' ''), One (Lit CHR 0x22), GroupStar Dot, One (Lit CHR 0x22)]"

text \<open>\<^verbatim>\<open>r'^(.*) \(s.\d+\)$'\<close>\<close>

definition timit :: "item list" where
  "timit = [GroupStar Dot, One (Lit CHR '' ''), One (Lit CHR ''(''), One (Lit CHR ''s''),
            One Dot, Plus Digit, One (Lit CHR '')'')]"

definition patterns :: "item list list" where
  "patterns = [arctic, timit]"

text \<open>The nested function \<^verbatim>\<open>filter\<close>: each pattern in turn.\<close>

definition filter_script :: "string \<Rightarrow> string" where
  "filter_script script = foldl (\<lambda>script pat. re_sub_group1 pat script) script patterns"

subsection \<open>Splitting a prompt: \<^verbatim>\<open>split_script\<close>\<close>

text \<open>
  \<^verbatim>\<open>math.ceil(a / b)\<close> on integers, \<open>b\<close> not zero. The quotient of the source is a float;
  it is taken as exact here, which it is as long as the length is below \<open>2 ^ 52\<close>.
\<close>

definition ceil_div :: "int \<Rightarrow> int \<Rightarrow> int" where
  "ceil_div a b = - ((- a) div b)"

text \<open>
  \<^verbatim>\<open>regex.search(script, pos)\<close> for \<^verbatim>\<open>\s+\<close>, and \<^verbatim>\<open>match.start()\<close>: the position of the first
  white space character at or after \<open>pos\<close>, if there is one.
\<close>

definition ws_search :: "string \<Rightarrow> nat \<Rightarrow> nat option" where
  "ws_search script pos =
     (let skipped = takeWhile (\<lambda>c. \<not> is_space c) (drop pos script)
      in if pos + length skipped < length script then Some (pos + length skipped) else None)"

text \<open>
  The loop \<^verbatim>\<open>for i in range(n)\<close>, by the number of rounds left. The state is \<^verbatim>\<open>startpos\<close> and
  the list \<^verbatim>\<open>scripts\<close>; a failed search (\<^verbatim>\<open>endpos is None\<close>) appends the rest and breaks.
\<close>

fun split_script_loop :: "nat \<Rightarrow> string \<Rightarrow> nat \<Rightarrow> nat \<Rightarrow> string list \<Rightarrow> string list" where
  "split_script_loop 0 script split_len startpos scripts = scripts"
| "split_script_loop (Suc i) script split_len startpos scripts =
     (case ws_search script (startpos + split_len) of
        None \<Rightarrow> scripts @ [strip (py_slice_from startpos script)]
      | Some endpos \<Rightarrow>
          split_script_loop i script split_len endpos
            (scripts @ [strip (py_slice startpos endpos script)]))"

text \<open>
  A \<^verbatim>\<open>split_len\<close> of 0 raises in the division. A negative one makes \<open>n\<close> at most 0, so that
  the loop body never runs and its \<^verbatim>\<open>split_len\<close> is never read.
\<close>

definition split_script :: "string \<Rightarrow> int \<Rightarrow> py_error + string list" where
  "split_script script split_len =
     (if split_len = 0 then Inl ZeroDivisionError
      else
        let n = ceil_div (int (length script)) split_len
        in Inr (split_script_loop (nat n) script (nat split_len) 0 []))"

subsection \<open>Reading and selecting\<close>

text \<open>
  A list comprehension whose elements may raise: the elements are evaluated in order and
  the first exception ends the evaluation.
\<close>

fun collect :: "('e + 'a) list \<Rightarrow> 'e + 'a list" where
  "collect [] = Inr []"
| "collect (x # xs) =
     (case x of
        Inl e \<Rightarrow> Inl e
      | Inr v \<Rightarrow> (case collect xs of Inl e \<Rightarrow> Inl e | Inr vs \<Rightarrow> Inr (v # vs)))"

text \<open>
  \<^verbatim>\<open>random.choice(seq)\<close> raises \<^verbatim>\<open>IndexError\<close> on an empty sequence and returns
  \<^verbatim>\<open>seq[randbelow(len(seq))]\<close> otherwise. The random source is a parameter: \<open>r\<close> is the
  number drawn, reduced below the length.
\<close>

definition random_choice :: "nat \<Rightarrow> 'a list \<Rightarrow> py_error + 'a" where
  "random_choice r seq = (if seq = [] then Inl IndexError else Inr (seq ! (r mod length seq)))"

text \<open>
  \<^verbatim>\<open>[line.strip() for line in file if not line.startswith(';')]\<close>; \<open>file\<close> is the list of the
  lines that iterating over the open file yields.
\<close>

definition read_scripts :: "string list \<Rightarrow> string list" where
  "read_scripts file = map strip (filter (\<lambda>line. \<not> startswith line '';'') file)"

text \<open>
  \<^verbatim>\<open>get_scripts_from_file(n, filename, randomize, split_len)\<close>. The file is given by its
  lines, and \<open>rnd i\<close> is the number drawn by the \<open>i\<close>-th call of \<^verbatim>\<open>random.choice\<close>.
\<close>

definition get_scripts_from_file ::
  "(nat \<Rightarrow> nat) \<Rightarrow> int option \<Rightarrow> string list \<Rightarrow> bool \<Rightarrow> int option \<Rightarrow> py_error + string list" where
  "get_scripts_from_file rnd n_arg file randomize split_len =
     (let scripts = read_scripts file;
          n = (case n_arg of None \<Rightarrow> int (length scripts) | Some n \<Rightarrow> n)
      in case (if randomize
               then collect (map (\<lambda>i. random_choice (rnd i) scripts) [0 ..< nat n])
               else Inr scripts) of
           Inl e \<Rightarrow> Inl e
         | Inr scripts \<Rightarrow>
             (let scripts = py_take n scripts;
                  scripts = map filter_script scripts
              in case split_len of
                   None \<Rightarrow> Inr (py_take n scripts)
                 | Some l \<Rightarrow>
                     (case collect (map (\<lambda>script. split_script script l) scripts) of
                        Inl e \<Rightarrow> Inl e
                      | Inr scripts \<Rightarrow> Inr (py_take n (concat scripts)))))"

subsection \<open>\<^verbatim>\<open>sanitize_script\<close>\<close>

text \<open>
  The body returns \<^verbatim>\<open>script.strip()\<close> in its first statement; the two substitutions
  written after the \<^verbatim>\<open>return\<close> are never reached.
\<close>

definition sanitize_script :: "string \<Rightarrow> string" where
  "sanitize_script script = strip script"

text \<open>
  What the two statements after the \<^verbatim>\<open>return\<close> would compute, for comparison:
  \<^verbatim>\<open>re.sub(r'[\-]', ' ', script)\<close> and then \<^verbatim>\<open>re.sub(r'[,.?!:;"]', '', script)\<close>.
\<close>

definition strip_punctuation :: "string \<Rightarrow> string" where
  "strip_punctuation script =
     filter (\<lambda>c. c \<notin> set ('',.?!:;'' @ [CHR 0x22]))
       (map (\<lambda>c. if c = CHR ''-'' then CHR '' '' else c) script)"

section \<open>Start-up: \<^verbatim>\<open>main\<close> and \<^verbatim>\<open>Recorder.__init__\<close>\<close>

text \<open>
  The effects of start-up are the calls into Qt, the audio module and the file system.
  The file system answers are parameters; the calls into Qt and the audio module are
  recorded as a trace of events, in the order the code makes them.
\<close>

record args =
  prompts_filename :: "string option"
  save_dir :: string
  prompts_count :: int
  prompt_len_soft_max :: "int option"

record file_system =
  isdir :: "string \<Rightarrow> bool"
  isfile :: "string \<Rightarrow> bool"

datatype event =
    CreateGuiApplication   \<comment> \<open>\<^verbatim>\<open>QGuiApplication(sys.argv)\<close>\<close>
  | CreateQmlEngine        \<comment> \<open>\<^verbatim>\<open>QQmlApplicationEngine()\<close>\<close>
  | AddImportPath          \<comment> \<open>\<^verbatim>\<open>engine.addImportPath(current_path)\<close>\<close>
  | CreateAudio            \<comment> \<open>\<^verbatim>\<open>audio.Audio()\<close>\<close>
  | SetContextProperty     \<comment> \<open>\<^verbatim>\<open>setContextProperty('recorder', recorder)\<close>\<close>
  | LoadQml                \<comment> \<open>\<^verbatim>\<open>engine.load(qml_file)\<close>\<close>
  | ExecApplication        \<comment> \<open>\<^verbatim>\<open>app.exec_()\<close>\<close>

record recorder =
  r_save_dir :: string
  r_prompts_filename :: string
  r_prompts_count :: int
  r_prompt_len_soft_max :: "int option"

definition quoted :: "string \<Rightarrow> string" where
  "quoted s = [CHR 0x27] @ s @ [CHR 0x27]"

text \<open>\<^verbatim>\<open>Recorder.__init__\<close>: the two checks, then the audio object.\<close>

definition recorder_init ::
  "file_system \<Rightarrow> string \<Rightarrow> string \<Rightarrow> int \<Rightarrow> int option \<Rightarrow> event list \<times> (py_error + recorder)" where
  "recorder_init fs sd pf cnt soft =
     (if \<not> isdir fs sd
        then ([], Inl (Exception (''save_dir '' @ quoted sd @ '' is not a directory'')))
      else if \<not> isfile fs pf
        then ([], Inl (Exception (''prompts_filename '' @ quoted pf @ '' is not a file'')))
      else ([CreateAudio],
            Inr \<lparr>r_save_dir = sd, r_prompts_filename = pf, r_prompts_count = cnt,
                 r_prompt_len_soft_max = soft\<rparr>))"

text \<open>
  \<^verbatim>\<open>main\<close>, from the parsed arguments on: the assertion, the Qt application and engine, the
  recorder, the window. The result is the trace and either the exception that ended the
  run or the recorder that the event loop runs with. An empty name is falsy, as \<^verbatim>\<open>None\<close> is.
\<close>

definition main :: "file_system \<Rightarrow> args \<Rightarrow> event list \<times> (py_error + recorder)" where
  "main fs a =
     (case prompts_filename a of
        None \<Rightarrow> ([], Inl AssertionError)
      | Some pf \<Rightarrow>
          if pf = [] then ([], Inl AssertionError)
          else
            (let before = [CreateGuiApplication, CreateQmlEngine, AddImportPath]
             in case recorder_init fs (save_dir a) pf (prompts_count a) (prompt_len_soft_max a) of
                  (inside, Inl e) \<Rightarrow> (before @ inside, Inl e)
                | (inside, Inr rec) \<Rightarrow>
                    (before @ inside @ [SetContextProperty, LoadQml, ExecApplication], Inr rec)))"

section \<open>Notions the properties are stated with\<close>






section \<open>Facts about the string operations\<close>

lemma rev_split_end: "xs = rev (dropWhile p (rev xs)) @ rev (takeWhile p (rev xs))"
  by (metis rev_append rev_rev_ident takeWhile_dropWhile_id)

lemma strip_tail:
  "dropWhile is_space s = strip s @ rev (takeWhile is_space (rev (dropWhile is_space s)))"
  unfolding strip_def by (rule rev_split_end)

lemma strip_decomp:
  "s = takeWhile is_space s @ strip s @ rev (takeWhile is_space (rev (dropWhile is_space s)))"
proof -
  have "s = takeWhile is_space s @ dropWhile is_space s"
    by simp
  then show ?thesis
    using strip_tail [of s] by metis
qed

lemma strip_last: "strip s \<noteq> [] \<Longrightarrow> \<not> is_space (last (strip s))"
  by (simp add: strip_def last_rev hd_dropWhile)

lemma strip_hd: "strip s \<noteq> [] \<Longrightarrow> \<not> is_space (hd (strip s))"
proof -
  assume ne: "strip s \<noteq> []"
  let ?t = "dropWhile is_space s"
  have t: "?t = strip s @ rev (takeWhile is_space (rev ?t))"
    by (rule strip_tail)
  then have "?t \<noteq> []" using ne by (metis Nil_is_append_conv)
  then have "\<not> is_space (hd ?t)" by (rule hd_dropWhile)
  moreover have "hd ?t = hd (strip s)" using t ne by (metis hd_append2)
  ultimately show ?thesis by simp
qed




lemma py_take_neg: "0 < d \<Longrightarrow> py_take (- d) xs = take (length xs - nat d) xs"
  by (simp add: py_take_def)

subsection \<open>Words\<close>










section \<open>Facts about the loop of \<^verbatim>\<open>split_script\<close>\<close>




















section \<open>Facts about reading and selecting\<close>

lemma foldl_push: "foldl push queue chunks = queue @ chunks"
  by (induction chunks arbitrary: queue) (simp_all add: push_def)

lemma read_audio_loop_eq:
  "read_audio_loop queue blocks = ([], blocks @ filter (\<lambda>c. c \<noteq> []) queue)"
  by (induction queue arbitrary: blocks) simp_all

lemma read_scripts_comments:
  "(\<forall>line \<in> set file. startswith line '';'') \<Longrightarrow> read_scripts file = []"
  by (simp add: read_scripts_def filter_empty_conv)

lemma collect_choices:
  "seq \<noteq> [] \<Longrightarrow>
     collect (map (\<lambda>i. random_choice (rnd i) seq) is)
       = Inr (map (\<lambda>i. seq ! (rnd i mod length seq)) is)"
  by (induction "is") (simp_all add: random_choice_def)


section \<open>The claims\<close>

subsection \<open>C1: what \<^verbatim>\<open>read_audio\<close> returns\<close>

text \<open>
  C1, as amended. After any sequence of chunks has been pushed and for every
  \<open>drop_last\<close> that is not negative, \<^verbatim>\<open>read_audio\<close> empties the queue and returns the bytes
  of the non-empty chunks, in push order, without the last \<open>drop_last\<close> of them; when there
  are fewer than \<open>drop_last\<close> non-empty chunks the result is empty. Empty chunks are
  skipped before the last ones are cut off. When every pushed chunk is non-empty, the
  result is the concatenation of the first \<open>max 0 (N - drop_last)\<close> pushed chunks.
\<close>

theorem read_audio_drop_last:
  "0 \<le> d \<Longrightarrow>
     read_audio (foldl push [] chunks) (Some d) =
       (concat (take (length (filter (\<lambda>c. c \<noteq> []) chunks) - nat d)
                  (filter (\<lambda>c. c \<noteq> []) chunks)), [])
     \<and> ((\<forall>c \<in> set chunks. c \<noteq> []) \<longrightarrow>
          fst (read_audio (foldl push [] chunks) (Some d)) =
            concat (take (nat (max 0 (int (length chunks) - d))) chunks))"
proof -
  assume d: "0 \<le> d"
  let ?live = "filter (\<lambda>c. c \<noteq> []) chunks"
  have q: "foldl push [] chunks = chunks"
    by (simp add: foldl_push)
  have main: "read_audio chunks (Some d) = (concat (take (length ?live - nat d) ?live), [])"
  proof (cases "d = 0")
    case True
    then show ?thesis by (simp add: read_audio_def read_audio_loop_eq)
  next
    case False
    with d have "0 < d" by simp
    then show ?thesis by (simp add: read_audio_def read_audio_loop_eq py_take_neg)
  qed
  have all: "(\<forall>c \<in> set chunks. c \<noteq> []) \<longrightarrow> ?live = chunks"
    by (simp add: filter_id_conv)
  have n: "nat (max 0 (int (length chunks) - d)) = length chunks - nat d"
    using d by (simp add: max_def nat_diff_distrib')
  show ?thesis
    using main all n by (simp add: q)
qed

text \<open>
  Five chunks \<^verbatim>\<open>A\<close> to \<^verbatim>\<open>E\<close> and \<open>drop_last = 2\<close> give \<^verbatim>\<open>ABC\<close>; two chunks and
  \<open>drop_last = 3\<close> give the empty result.
\<close>

theorem read_audio_drop_last_witness:
  "read_audio (foldl push [] [[65], [66], [67], [68], [69]]) (Some 2) = ([65, 66, 67], [])
   \<and> read_audio (foldl push [] [[65], [66]]) (Some 3) = ([], [])"
  using read_audio_drop_last [of 2 "[[65], [66], [67], [68], [69]]"]
    read_audio_drop_last [of 3 "[[65], [66]]"]
  by simp

text \<open>
  C1 as stated fails when a pushed chunk is empty: of the three chunks \<^verbatim>\<open>A\<close>, \<^verbatim>\<open>B\<close> and the
  empty chunk, with \<open>drop_last = 1\<close>, the first two pushed chunks are \<^verbatim>\<open>AB\<close>, while
  \<^verbatim>\<open>read_audio\<close> returns \<^verbatim>\<open>A\<close>.
\<close>

theorem read_audio_empty_chunk_counterexample:
  "fst (read_audio (foldl push [] [[65], [66], []]) (Some 1)) = [65]
   \<and> concat (take (nat (max 0 (int (length [[65], [66], [] :: bytes]) - 1))) [[65], [66], []])
       = [65, 66 :: 8 word]
   \<and> fst (read_audio (foldl push [] [[65], [66], []]) (Some 1))
       \<noteq> concat (take (nat (max 0 (int (length [[65], [66], [] :: bytes]) - 1))) [[65], [66], []])"
  by (simp add: read_audio_def push_def py_take_def)

subsection \<open>C2: the scenario of the four-line corpus\<close>

text \<open>
  C2, as amended. For the corpus of the four lines \<^verbatim>\<open>hello world\<close>, \<^verbatim>\<open>; a comment\<close>,
  \<^verbatim>\<open>foo "bar baz"\<close> and \<^verbatim>\<open>qux (s5)\<close>, with \<open>n = 4\<close> and without randomizing, the lines kept
  after the comment is dropped are \<^verbatim>\<open>hello world\<close>, \<^verbatim>\<open>foo "bar baz"\<close> and \<^verbatim>\<open>qux (s5)\<close>, and
  the result is \<^verbatim>\<open>hello world\<close>, \<^verbatim>\<open>bar baz\<close>, \<^verbatim>\<open>qux (s5)\<close>, whether or not the lines carry their
  newline. The second pattern removes a tag made of \<^verbatim>\<open>s\<close>, one more character and at least
  one digit, such as \<^verbatim>\<open>(sx5)\<close> or \<^verbatim>\<open>(s15)\<close>; \<^verbatim>\<open>(s5)\<close> is too short for it and stays.
\<close>

theorem get_scripts_scenario:
  "read_scripts [''hello world'' @ [CHR 0x0A], ''; a comment'' @ [CHR 0x0A],
        ''foo '' @ [CHR 0x22] @ ''bar baz'' @ [CHR 0x22, CHR 0x0A], ''qux (s5)'' @ [CHR 0x0A]]
      = [''hello world'', ''foo '' @ [CHR 0x22] @ ''bar baz'' @ [CHR 0x22], ''qux (s5)'']
   \<and> get_scripts_from_file rnd (Some 4)
       [''hello world'' @ [CHR 0x0A], ''; a comment'' @ [CHR 0x0A],
        ''foo '' @ [CHR 0x22] @ ''bar baz'' @ [CHR 0x22, CHR 0x0A], ''qux (s5)'' @ [CHR 0x0A]]
       False None
      = Inr [''hello world'', ''bar baz'', ''qux (s5)'']
   \<and> get_scripts_from_file rnd (Some 4)
       [''hello world'', ''; a comment'', ''foo '' @ [CHR 0x22] @ ''bar baz'' @ [CHR 0x22], ''qux (s5)'']
       False None
      = Inr [''hello world'', ''bar baz'', ''qux (s5)'']
   \<and> filter_script ''qux (sx5)'' = ''qux''
   \<and> filter_script ''qux (s15)'' = ''qux''"
  by code_simp

text \<open>C2 as stated fails: the result is not \<^verbatim>\<open>hello world\<close>, \<^verbatim>\<open>bar baz\<close>, \<^verbatim>\<open>qux\<close>.\<close>

theorem get_scripts_scenario_counterexample:
  "get_scripts_from_file (\<lambda>i. 0) (Some 4)
       [''hello world'' @ [CHR 0x0A], ''; a comment'' @ [CHR 0x0A],
        ''foo '' @ [CHR 0x22] @ ''bar baz'' @ [CHR 0x22, CHR 0x0A], ''qux (s5)'' @ [CHR 0x0A]]
       False None
     \<noteq> Inr [''hello world'', ''bar baz'', ''qux'']"
  by code_simp

subsection \<open>C3: the segments of the selected prompts in the result\<close>




subsection \<open>C4: the number of segments\<close>




subsection \<open>C5: selection with replacement\<close>

text \<open>
  C5. When the file has at least one line that is not a comment and \<open>n\<close> is not negative,
  \<^verbatim>\<open>get_scripts_from_file\<close> with \<open>randomize\<close> set and no soft maximum returns, whatever the
  random draws are, exactly \<open>n\<close> items, each the clean-up of one of the lines read; when
  \<open>n\<close> is larger than the number of lines read, two of the items returned are equal.
\<close>

theorem get_scripts_randomized:
  "read_scripts file \<noteq> [] \<Longrightarrow> 0 \<le> n \<Longrightarrow>
     \<exists>res. get_scripts_from_file rnd (Some n) file True None = Inr res
       \<and> int (length res) = n
       \<and> (\<forall>x \<in> set res. \<exists>l \<in> set (read_scripts file). x = filter_script l)
       \<and> (int (length (read_scripts file)) < n \<longrightarrow> \<not> distinct res)"
proof -
  assume ne: "read_scripts file \<noteq> []" and n: "0 \<le> n"
  let ?scripts = "read_scripts file"
  let ?res = "map (\<lambda>i. filter_script (?scripts ! (rnd i mod length ?scripts))) [0 ..< nat n]"
  have r: "get_scripts_from_file rnd (Some n) file True None = Inr ?res"
    using n by (simp add: get_scripts_from_file_def collect_choices [OF ne] py_take_def comp_def)
  have len: "int (length ?res) = n" using n by simp
  have mem: "\<forall>x \<in> set ?res. \<exists>l \<in> set ?scripts. x = filter_script l"
    using ne by auto
  have pig: "int (length ?scripts) < n \<longrightarrow> \<not> distinct ?res"
  proof
    assume big: "int (length ?scripts) < n"
    have "set ?res \<subseteq> filter_script ` set ?scripts" using ne by auto
    then have "card (set ?res) \<le> card (filter_script ` set ?scripts)"
      by (simp add: card_mono)
    also have "\<dots> \<le> card (set ?scripts)" by (simp add: card_image_le)
    also have "\<dots> \<le> length ?scripts" by (rule card_length)
    finally have "card (set ?res) < length ?res" using big by simp
    then show "\<not> distinct ?res" using distinct_card by fastforce
  qed
  show ?thesis using r len mem pig by blast
qed

text \<open>Three draws from a file of two lines: three items, not all different.\<close>

theorem get_scripts_randomized_witness:
  "\<exists>res. get_scripts_from_file (\<lambda>i. i) (Some 3) [''a'' @ [CHR 0x0A], ''b'' @ [CHR 0x0A]] True None = Inr res
     \<and> int (length res) = 3 \<and> \<not> distinct res"
proof -
  have h: "read_scripts [''a'' @ [CHR 0x0A], ''b'' @ [CHR 0x0A]] = [''a'', ''b'']"
    by code_simp
  show ?thesis
    using get_scripts_randomized [of "[''a'' @ [CHR 0x0A], ''b'' @ [CHR 0x0A]]" 3 "\<lambda>i. i"]
    unfolding h by auto
qed

subsection \<open>C6: the words of a split prompt\<close>



subsection \<open>C7: empty segments\<close>




subsection \<open>C8: \<^verbatim>\<open>sanitize_script\<close> only trims\<close>

text \<open>
  C8. For every string, \<^verbatim>\<open>sanitize_script\<close> returns the string without its leading and
  trailing white space and changes nothing else: the string is the result between two
  runs of white space, the result neither begins nor ends with white space, and the
  characters that are not white space are the same, in the same order. No punctuation is
  removed and no hyphen is replaced.
\<close>

theorem sanitize_script_trims:
  "\<exists>a b. script = a @ sanitize_script script @ b
     \<and> list_all is_space a \<and> list_all is_space b
     \<and> (sanitize_script script = []
        \<or> (\<not> is_space (hd (sanitize_script script)) \<and> \<not> is_space (last (sanitize_script script))))
     \<and> filter (\<lambda>c. \<not> is_space c) (sanitize_script script) = filter (\<lambda>c. \<not> is_space c) script"
proof -
  let ?a = "takeWhile is_space script"
  let ?b = "rev (takeWhile is_space (rev (dropWhile is_space script)))"
  have d: "script = ?a @ sanitize_script script @ ?b"
    unfolding sanitize_script_def by (rule strip_decomp)
  have a: "\<forall>c \<in> set ?a. is_space c"
    by (metis set_takeWhileD)
  have b: "\<forall>c \<in> set ?b. is_space c"
    by (metis set_rev set_takeWhileD)
  have e: "sanitize_script script = []
        \<or> (\<not> is_space (hd (sanitize_script script)) \<and> \<not> is_space (last (sanitize_script script)))"
    unfolding sanitize_script_def using strip_hd strip_last by blast
  have fa: "filter (\<lambda>c. \<not> is_space c) ?a = []" using a by (simp add: filter_empty_conv)
  have fb: "filter (\<lambda>c. \<not> is_space c) ?b = []" using b by (simp only: filter_empty_conv) blast
  have "filter (\<lambda>c. \<not> is_space c) (?a @ sanitize_script script @ ?b)
          = filter (\<lambda>c. \<not> is_space c) (sanitize_script script)"
    by (simp only: filter_append fa fb append_Nil append_Nil2)
  then have f: "filter (\<lambda>c. \<not> is_space c) (sanitize_script script) = filter (\<lambda>c. \<not> is_space c) script"
    using d by simp
  have "list_all is_space ?a" "list_all is_space ?b"
    using a b by (simp_all only: list_all_iff)
  then show ?thesis using d e f by blast
qed

text \<open>
  A prompt with a hyphen, a comma and an exclamation mark between blanks: the result keeps
  them, where the statements after the \<^verbatim>\<open>return\<close> would have given \<^verbatim>\<open>a b c\<close>.
\<close>

theorem sanitize_script_trims_witness:
  "sanitize_script ''  a-b, c!  '' = ''a-b, c!''
   \<and> filter (\<lambda>c. \<not> is_space c) (sanitize_script ''  a-b, c!  '') = ''a-b,c!''
   \<and> strip_punctuation ''a-b, c!'' = ''a b c''"
proof -
  have h: "filter (\<lambda>c. \<not> is_space c) ''  a-b, c!  '' = ''a-b,c!''"
    by code_simp
  have s: "sanitize_script ''  a-b, c!  '' = ''a-b, c!''"
    by code_simp
  have p: "strip_punctuation ''a-b, c!'' = ''a b c''"
    by code_simp
  from sanitize_script_trims [of "''  a-b, c!  ''"]
  have "filter (\<lambda>c. \<not> is_space c) (sanitize_script ''  a-b, c!  '')
          = filter (\<lambda>c. \<not> is_space c) ''  a-b, c!  ''"
    by blast
  then have f: "filter (\<lambda>c. \<not> is_space c) (sanitize_script ''  a-b, c!  '') = ''a-b,c!''"
    by (simp only: h)
  from s f p show ?thesis by blast
qed

subsection \<open>C9: a missing directory or file at start-up\<close>

text \<open>
  C9, as amended. When a prompts file name is given and the save directory is not an
  existing directory or the prompts file is not an existing file, \<^verbatim>\<open>main\<close> ends with the
  exception raised by \<^verbatim>\<open>Recorder.__init__\<close>. At that point the audio object has not been
  created, the window has not been loaded and the event loop has not run, but the Qt
  application object and the QML engine have been created: they are made before the
  recorder is.
\<close>

theorem main_config_error:
  "prompts_filename a = Some pf \<Longrightarrow> pf \<noteq> [] \<Longrightarrow>
   \<not> isdir fs (save_dir a) \<or> \<not> isfile fs pf \<Longrightarrow>
     \<exists>msg. main fs a = ([CreateGuiApplication, CreateQmlEngine, AddImportPath], Inl (Exception msg))
       \<and> CreateAudio \<notin> set (fst (main fs a))
       \<and> LoadQml \<notin> set (fst (main fs a))
       \<and> ExecApplication \<notin> set (fst (main fs a))"
  by (auto simp add: main_def recorder_init_def)

text \<open>A save directory that does not exist.\<close>

theorem main_config_error_witness:
  "\<exists>msg. main \<lparr>isdir = (\<lambda>d. False), isfile = (\<lambda>f. True)\<rparr>
        \<lparr>prompts_filename = Some ''p.txt'', save_dir = ''out'', prompts_count = 100,
         prompt_len_soft_max = None\<rparr>
      = ([CreateGuiApplication, CreateQmlEngine, AddImportPath], Inl (Exception msg))"
  using main_config_error [of "\<lparr>prompts_filename = Some ''p.txt'', save_dir = ''out'',
         prompts_count = 100, prompt_len_soft_max = None\<rparr>" "''p.txt''"
         "\<lparr>isdir = (\<lambda>d. False), isfile = (\<lambda>f. True)\<rparr>"]
  by simp

text \<open>
  C9 as stated fails: with a save directory that does not exist, the exception comes
  after the Qt application object and the QML engine have been created.
\<close>

theorem main_ui_before_check_counterexample:
  "main \<lparr>isdir = (\<lambda>d. False), isfile = (\<lambda>f. True)\<rparr>
        \<lparr>prompts_filename = Some ''p.txt'', save_dir = ''out'', prompts_count = 100,
         prompt_len_soft_max = None\<rparr>
      = ([CreateGuiApplication, CreateQmlEngine, AddImportPath],
         Inl (Exception (''save_dir '' @ [CHR 0x27] @ ''out'' @ [CHR 0x27] @ '' is not a directory'')))
   \<and> CreateGuiApplication \<in> set [CreateGuiApplication, CreateQmlEngine, AddImportPath]"
  by (simp add: main_def recorder_init_def quoted_def)

subsection \<open>C10: a file of comments only\<close>

text \<open>
  C10. When every line of the file is a comment, \<open>randomize\<close> is set and \<open>n\<close> is positive,
  \<^verbatim>\<open>get_scripts_from_file\<close> raises \<^verbatim>\<open>IndexError\<close>, with or without a soft maximum, instead of
  returning an empty list.
\<close>

theorem get_scripts_all_comments:
  "(\<forall>line \<in> set file. startswith line '';'') \<Longrightarrow> 0 < n \<Longrightarrow>
     get_scripts_from_file rnd (Some n) file True split_len = Inl IndexError"
proof -
  assume c: "\<forall>line \<in> set file. startswith line '';''" and n: "0 < n"
  have e: "read_scripts file = []" using c by (rule read_scripts_comments)
  have "0 < nat n" using n by simp
  then have "[0 ..< nat n] = 0 # [Suc 0 ..< nat n]" by (simp add: upt_conv_Cons)
  then show ?thesis
    by (simp add: get_scripts_from_file_def e random_choice_def)
qed

text \<open>Two comment lines and the default count of 100.\<close>

theorem get_scripts_all_comments_witness:
  "get_scripts_from_file (\<lambda>i. 0) (Some 100) [''; one'' @ [CHR 0x0A], '';'' @ [CHR 0x0A]] True None
     = Inl IndexError"
proof -
  have c: "\<forall>line \<in> set [''; one'' @ [CHR 0x0A], '';'' @ [CHR 0x0A]]. startswith line '';''"
    by (simp add: startswith_def)
  show ?thesis
    using c by (rule get_scripts_all_comments) simp
qed

end
